theory Spec2Isabelle
  imports Complex_Main "HOL-Library.Sublist"
begin

section \<open>Data model (src/App.tsx, types imported from ./types)\<close>

text \<open>
  The file src/App.tsx holds two revisions of the component, one after the other. This
  development follows the first (lines 1-370), and line numbers of src/App.tsx refer
  to it. The modules it imports as ./services/gemini and ./services/speech are the
  files src/unnamed/part_000 and src/unnamed/part_001.
\<close>

text \<open>
  The selection method of a log entry is one of three string tags; the source passes
  them as the literals \<^verbatim>\<open>'voice_confirmed'\<close>, \<^verbatim>\<open>'manual_click'\<close> and
  \<^verbatim>\<open>'implicit_split'\<close>.
\<close>

datatype selection_method = voice_confirmed | manual_click | implicit_split

text \<open>
  A log entry, as \<^verbatim>\<open>addLog\<close> builds it. The field \<^verbatim>\<open>id\<close> of the source is named
  \<open>id_field\<close> here (\<open>id\<close> is the identity function of HOL). JavaScript numbers
  are modelled as reals (the weights are decimal literals that the program stores and
  never computes with); \<^verbatim>\<open>Date.now()\<close> is an integer number of milliseconds.
\<close>

record WordLog =
  id_field :: string
  word :: string
  category :: string
  weight :: real
  timestamp :: int
  selectionMethod :: selection_method

text \<open>
  The suggestion context \<^verbatim>\<open>{ words, category, timestamp }\<close>. Its category and
  timestamp fields are named \<open>ctxCategory\<close> and \<open>ctxTimestamp\<close>, to keep them apart
  from the fields of a log entry.
\<close>

record SuggestionContext =
  words :: "string list"
  ctxCategory :: string
  ctxTimestamp :: int

section \<open>The two services the application holds\<close>

text \<open>
  The output audio context: the only property the program reads is its clock.
\<close>

record AudioContext =
  currentTime :: real


text \<open>
  The fields of class \<^verbatim>\<open>GeminiService\<close>. A nullable handle whose content the program
  never reads is a flag (\<open>True\<close>: not null). \<open>started\<close> is not a field of the class:
  it records, in order, the calls \<^verbatim>\<open>source.start(when)\<close> made on the output graph, each
  with the duration of the buffer it plays.
\<close>

record GeminiService =
  session :: bool
  inputAudioContext :: bool
  outputAudioContext :: "AudioContext option"
  scriptProcessor :: bool
  mediaStreamSource :: bool
  outputNode :: bool
  nextStartTime :: real
  currentStream :: bool
  started :: "(real \<times> real) list"

text \<open>
  The fields of class \<^verbatim>\<open>SpeechService\<close>; \<open>recognition\<close> tells whether the browser's
  recognizer object was constructed.
\<close>

record SpeechService =
  recognition :: bool
  isListening :: bool
  shouldRestart :: bool

section \<open>Application state (component AppContent of src/App.tsx)\<close>

text \<open>
  One record holds the React state cells (\<open>isRecording\<close> to \<open>confirmationMessage\<close>),
  the three refs, the signed-in user's uid, and what the component has sent to the two
  stores: \<open>cloudWrites\<close> lists the calls \<^verbatim>\<open>setDoc(doc(db, path), log)\<close> and
  \<open>dbWrites\<close> the calls \<^verbatim>\<open>addLogToDB(log)\<close>, in order.

  \<^verbatim>\<open>crypto.randomUUID()\<close> and \<^verbatim>\<open>Date.now()\<close> are inputs from the environment: the
  state carries what the k-th call of each returns (\<open>randomUUID\<close>, \<open>dateNow\<close>) and how
  many calls were made (\<open>uuidCalls\<close>, \<open>nowCalls\<close>).

  A call \<^verbatim>\<open>setX(v)\<close> of a state setter is modelled as the update of the cell. The ref
  \<open>suggestionCtxRef\<close> is a cell of its own: the callbacks given to the Gemini service
  read the context through it, and the effect \<open>syncSuggestionCtxRef\<close> below copies the
  state cell to the ref. A handler of the user interface is a closure of one render: the
  \<^verbatim>\<open>suggestionCtx\<close> it reads is the value the cell had in that render, whatever the cell
  holds when the handler runs. Where that value decides what the handler does, it is the
  argument \<open>shown\<close> of the handler.
\<close>

record AppState =
  user :: "string option"
  isRecording :: bool
  suggestionCtx :: "SuggestionContext option"
  logs :: "WordLog list"
  showReport :: bool
  error :: "string option"
  finalTranscript :: string
  interimTranscript :: string
  confirmationMessage :: "string option"
  geminiRef :: "GeminiService option"
  speechRef :: "SpeechService option"
  suggestionCtxRef :: "SuggestionContext option"
  cloudWrites :: "(string \<times> WordLog) list"
  dbWrites :: "WordLog list"
  randomUUID :: "nat \<Rightarrow> string"
  uuidCalls :: nat
  dateNow :: "nat \<Rightarrow> int"
  nowCalls :: nat

text \<open>
  The effect of lines 31-33:
  \<^verbatim>\<open>useEffect(() => { suggestionCtxRef.current = suggestionCtx; }, [suggestionCtx])\<close>.
\<close>

definition syncSuggestionCtxRef :: "AppState \<Rightarrow> AppState" where
  "syncSuggestionCtxRef s = s\<lparr>suggestionCtxRef := suggestionCtx s\<rparr>"

section \<open>Logging\<close>

text \<open>
  \<^verbatim>\<open>addLog\<close> (lines 35-56): build the entry with a fresh id and the current time, write
  it to the cloud collection of the user when there is one, write it to the local
  store, append it to \<open>logs\<close>.
\<close>

definition addLog :: "string \<Rightarrow> string \<Rightarrow> real \<Rightarrow> selection_method \<Rightarrow> AppState \<Rightarrow> AppState" where
  "addLog w c wt m s =
     (let newLog = \<lparr>id_field = randomUUID s (uuidCalls s), word = w, category = c,
                     weight = wt, timestamp = dateNow s (nowCalls s), selectionMethod = m\<rparr>;
          s1 = s\<lparr>uuidCalls := Suc (uuidCalls s), nowCalls := Suc (nowCalls s)\<rparr>;
          s2 = (case user s1 of
                  Some uid \<Rightarrow>
                    s1\<lparr>cloudWrites := cloudWrites s1 @
                         [(''users/'' @ uid @ ''/logs/'' @ id_field newLog, newLog)]\<rparr>
                | None \<Rightarrow> s1);
          s3 = s2\<lparr>dbWrites := dbWrites s2 @ [newLog]\<rparr>
      in s3\<lparr>logs := logs s3 @ [newLog]\<rparr>)"

text \<open>
  The weights of the implicit split, \<^verbatim>\<open>const weights = [0.5, 0.4, 0.1]\<close>, and the
  expression \<^verbatim>\<open>weights[idx] || 0.1\<close>: reading past the end of the array gives
  \<^verbatim>\<open>undefined\<close>, and \<^verbatim>\<open>||\<close> replaces \<^verbatim>\<open>undefined\<close> and \<^verbatim>\<open>0\<close> by its right
  operand.
\<close>

definition weights :: "real list" where
  "weights = [0.5, 0.4, 0.1]"

definition arrayGet :: "'a list \<Rightarrow> nat \<Rightarrow> 'a option" where
  "arrayGet xs i = (if i < length xs then Some (xs ! i) else None)"

definition orNumber :: "real option \<Rightarrow> real \<Rightarrow> real" where
  "orNumber x d = (case x of None \<Rightarrow> d | Some v \<Rightarrow> if v = 0 then d else v)"

text \<open>
  \<^verbatim>\<open>processImplicitSplit\<close> (lines 66-71): \<^verbatim>\<open>ctx.words.forEach((word, idx) => ...)\<close> is
  the recursion \<open>forEachWord\<close> over the words, with the index counted up.
\<close>

fun forEachWord :: "SuggestionContext \<Rightarrow> string list \<Rightarrow> nat \<Rightarrow> AppState \<Rightarrow> AppState" where
  "forEachWord ctx [] idx s = s"
| "forEachWord ctx (w # ws) idx s =
     forEachWord ctx ws (Suc idx)
       (addLog w (ctxCategory ctx) (orNumber (arrayGet weights idx) 0.1) implicit_split s)"

definition processImplicitSplit :: "SuggestionContext \<Rightarrow> AppState \<Rightarrow> AppState" where
  "processImplicitSplit ctx s = forEachWord ctx (words ctx) 0 s"

text \<open>
  The entries an operation has appended: what \<open>logs\<close> holds after it beyond the
  length it had before.
\<close>

definition produced :: "AppState \<Rightarrow> AppState \<Rightarrow> WordLog list" where
  "produced s s' = drop (length (logs s)) (logs s')"

section \<open>Errors\<close>

text \<open>
  What a call can throw: a \<^verbatim>\<open>ReferenceError\<close> for an identifier that is not declared,
  a \<^verbatim>\<open>TypeError\<close> for a method called on null or given null, or an exception raised
  inside a call to the browser or to the SDK.
\<close>

datatype js_error = ReferenceError string | TypeError string | BrowserError string

section \<open>The speech service (class SpeechService, src/unnamed/part_001)\<close>

text \<open>
  The constructor. When \<^verbatim>\<open>'webkitSpeechRecognition' in window\<close> it builds the
  recognizer, which can throw; otherwise it reports
  \<^verbatim>\<open>"Speech recognition not supported in this browser."\<close> through its error callback
  and leaves \<open>recognition\<close> unset. The result is the exception, or the service with
  the messages it gave to the error callback.
\<close>

definition newSpeechService :: "bool \<Rightarrow> bool \<Rightarrow> js_error + (SpeechService \<times> string list)" where
  "newSpeechService hasWebkit ctorThrows =
     (if hasWebkit then
        (if ctorThrows then Inl (BrowserError ''SpeechRecognition'')
         else Inr (\<lparr>recognition = True, isListening = False, shouldRestart = False\<rparr>, []))
      else Inr (\<lparr>recognition = False, isListening = False, shouldRestart = False\<rparr>,
                [''Speech recognition not supported in this browser.'']))"

text \<open>
  \<^verbatim>\<open>start()\<close> catches what \<^verbatim>\<open>recognition.start()\<close> throws, so it never throws itself;
  \<open>startThrows\<close> tells whether the recognizer's start threw.
\<close>

definition speechStart :: "bool \<Rightarrow> SpeechService \<Rightarrow> SpeechService" where
  "speechStart startThrows sp =
     (if recognition sp \<and> \<not> isListening sp then
        (if startThrows then sp\<lparr>shouldRestart := True\<rparr>
         else sp\<lparr>shouldRestart := True, isListening := True\<rparr>)
      else sp)"

definition speechStop :: "SpeechService \<Rightarrow> SpeechService" where
  "speechStop sp =
     (if recognition sp then sp\<lparr>shouldRestart := False, isListening := False\<rparr> else sp)"


section \<open>Callbacks given to the two services (handleStartSession, lines 83-127)\<close>

text \<open>
  \<^verbatim>\<open>onSuggestions\<close> (lines 84-90): the previous context is read from the ref; when
  there is one its words are logged by the implicit split, then the state cell is set to
  the new context, stamped with the current time.
\<close>

definition onSuggestions :: "string list \<Rightarrow> string \<Rightarrow> AppState \<Rightarrow> AppState" where
  "onSuggestions ws c s =
     (let s1 = (case suggestionCtxRef s of
                  Some prev \<Rightarrow> processImplicitSplit prev s
                | None \<Rightarrow> s)
      in s1\<lparr>suggestionCtx :=
               Some \<lparr>words = ws, ctxCategory = c, ctxTimestamp = dateNow s1 (nowCalls s1)\<rparr>,
             nowCalls := Suc (nowCalls s1)\<rparr>)"

text \<open>
  \<^verbatim>\<open>current?.category || 'General'\<close>: \<^verbatim>\<open>'General'\<close> when there is no context, and
  also when the category of the context is the empty string.
\<close>

definition categoryOrGeneral :: "SuggestionContext option \<Rightarrow> string" where
  "categoryOrGeneral current =
     (case current of
        None \<Rightarrow> ''General''
      | Some ctx \<Rightarrow> if ctxCategory ctx = [] then ''General'' else ctxCategory ctx)"

text \<open>
  \<^verbatim>\<open>onConfirmedWord\<close> (lines 91-99). Its last statement calls \<^verbatim>\<open>showConfirmation\<close>,
  which src/App.tsx neither declares nor imports: the call throws a
  \<^verbatim>\<open>ReferenceError\<close>, after the log entry was added and the three setters were called.
  The result is the state with what the callback threw.
\<close>

definition onConfirmedWord :: "string \<Rightarrow> AppState \<Rightarrow> AppState \<times> js_error option" where
  "onConfirmedWord w s =
     (let c = categoryOrGeneral (suggestionCtxRef s);
          s1 = addLog w c 1.0 voice_confirmed s
      in (s1\<lparr>suggestionCtx := None, finalTranscript := [], interimTranscript := []\<rparr>,
          Some (ReferenceError ''showConfirmation'')))"

definition onRejectWord :: "AppState \<Rightarrow> AppState" where
  "onRejectWord s = s\<lparr>suggestionCtx := None\<rparr>"

definition onTranscriptUpdate :: "string \<Rightarrow> AppState \<Rightarrow> AppState" where
  "onTranscriptUpdate text s = s\<lparr>finalTranscript := finalTranscript s @ text\<rparr>"

definition onError :: "string \<Rightarrow> AppState \<Rightarrow> AppState" where
  "onError err s = s\<lparr>error := Some err\<rparr>"

text \<open>The result callback of the speech service (lines 115-122).\<close>

definition onSpeechResult :: "string \<Rightarrow> bool \<Rightarrow> AppState \<Rightarrow> AppState" where
  "onSpeechResult text isFinal s =
     (if isFinal then
        s\<lparr>finalTranscript :=
             (if finalTranscript s \<noteq> [] then finalTranscript s @ ''. '' @ text else text),
          interimTranscript := []\<rparr>
      else s\<lparr>interimTranscript := text\<rparr>)"

text \<open>
  The error callback of the speech service (lines 123-126) writes a warning to the
  console and touches no state.
\<close>

definition onSpeechError :: "string \<Rightarrow> AppState \<Rightarrow> AppState" where
  "onSpeechError err s = s"

section \<open>Handlers of the user interface\<close>

text \<open>
  What \<^verbatim>\<open>handleStartSession\<close> gets from its environment. From the browser: whether the
  two recognizer names are in \<^verbatim>\<open>window\<close>, and whether the constructor or the start of
  the recognizer throws. From the Gemini service, which this component calls as
  \<^verbatim>\<open>connect(true)\<close> and whose behaviour is taken as given: whether its constructor
  throws, the messages \<^verbatim>\<open>connect\<close> gives to \<^verbatim>\<open>onError\<close>, whether \<^verbatim>\<open>connect\<close> throws,
  and the service object as \<^verbatim>\<open>connect\<close> leaves it.
\<close>

record StartEnv =
  hasSpeechRecognition :: bool
  hasWebkitSpeechRecognition :: bool
  geminiCtorThrows :: bool
  recognitionCtorThrows :: bool
  connectErrors :: "string list"
  connectThrows :: bool
  connected :: GeminiService
  recognitionStartThrows :: bool

text \<open>A new \<^verbatim>\<open>GeminiService\<close>: the field initialisers of the class.\<close>

definition newGeminiService :: GeminiService where
  "newGeminiService =
     \<lparr>session = False, inputAudioContext = False, outputAudioContext = None,
      scriptProcessor = False, mediaStreamSource = False, outputNode = False,
      nextStartTime = 0, currentStream = False, started = []\<rparr>"

text \<open>
  \<^verbatim>\<open>handleStartSession\<close> (lines 73-156). The outer \<^verbatim>\<open>try\<close> turns an exception of the
  Gemini constructor or of \<^verbatim>\<open>connect\<close> into the error \<^verbatim>\<open>"Failed to start session."\<close>;
  the inner ones turn an exception of the speech constructor into a null \<open>speechRef\<close>.
  \<^verbatim>\<open>SpeechService.start\<close> does not throw, so the handler of the last \<^verbatim>\<open>try\<close> is
  never entered.
\<close>

definition handleStartSession :: "StartEnv \<Rightarrow> AppState \<Rightarrow> AppState" where
  "handleStartSession env s =
     (let s0 = s\<lparr>error := None, finalTranscript := [], interimTranscript := []\<rparr>;
          hasWebSpeech = (hasSpeechRecognition env \<or> hasWebkitSpeechRecognition env)
      in if geminiCtorThrows env then s0\<lparr>error := Some ''Failed to start session.''\<rparr>
         else
           let s1 = s0\<lparr>geminiRef := Some newGeminiService\<rparr>;
               s2 = (if hasWebSpeech then
                       (case newSpeechService (hasWebkitSpeechRecognition env)
                               (recognitionCtorThrows env) of
                          Inl e \<Rightarrow> s1\<lparr>speechRef := None\<rparr>
                        | Inr (sp, errs) \<Rightarrow> (fold onSpeechError errs s1)\<lparr>speechRef := Some sp\<rparr>)
                     else s1);
               s3 = (fold onError (connectErrors env) s2)\<lparr>geminiRef := Some (connected env)\<rparr>
           in if connectThrows env then s3\<lparr>error := Some ''Failed to start session.''\<rparr>
              else
                let s4 = (case speechRef s3 of
                            Some sp \<Rightarrow>
                              s3\<lparr>speechRef := Some (speechStart (recognitionStartThrows env) sp)\<rparr>
                          | None \<Rightarrow> s3)
                in s4\<lparr>isRecording := True\<rparr>)"

text \<open>
  \<^verbatim>\<open>handleStopSession\<close> (lines 158-175) is an async handler. When a Gemini service is
  held it calls \<^verbatim>\<open>disconnect()\<close> and is suspended at the \<^verbatim>\<open>await\<close> of line 160: other
  callbacks and handlers can run before it continues. \<open>shown\<close> is the \<^verbatim>\<open>suggestionCtx\<close>
  of the render whose Stop button was pressed; the handler reads it at line 171, after
  the \<^verbatim>\<open>await\<close>.

  \<open>stopAfterGemini\<close> is lines 164-174: the speech service that is held is stopped and
  dropped with its ref, recording stops, and when \<open>shown\<close> is a context its words go
  through the implicit split and the state cell is set to null; when \<open>shown\<close> is null
  the cell is left as it is.
\<close>

definition stopAfterGemini :: "SuggestionContext option \<Rightarrow> AppState \<Rightarrow> AppState" where
  "stopAfterGemini shown s =
     (let s2 = (case speechRef s of Some sp \<Rightarrow> s\<lparr>speechRef := None\<rparr> | None \<Rightarrow> s);
          s3 = s2\<lparr>isRecording := False\<rparr>
      in case shown of
           Some ctx \<Rightarrow> (processImplicitSplit ctx s3)\<lparr>suggestionCtx := None\<rparr>
         | None \<Rightarrow> s3)"

text \<open>
  \<open>handleStopSessionResume\<close> is what a suspended handler does when \<^verbatim>\<open>disconnect()\<close> has
  settled (line 161 onwards): the ref of the Gemini service is set to null, and the rest
  follows. Up to the \<^verbatim>\<open>await\<close> the handler has changed nothing in this state.
\<close>

definition handleStopSessionResume :: "SuggestionContext option \<Rightarrow> AppState \<Rightarrow> AppState" where
  "handleStopSessionResume shown s = stopAfterGemini shown (s\<lparr>geminiRef := None\<rparr>)"

text \<open>
  \<open>handleStopSession\<close> is a press of the Stop button during whose \<^verbatim>\<open>await\<close> nothing
  else happens; with no Gemini service held there is no \<^verbatim>\<open>await\<close> at all.
\<close>

definition handleStopSession :: "SuggestionContext option \<Rightarrow> AppState \<Rightarrow> AppState" where
  "handleStopSession shown s =
     (case geminiRef s of
        Some g \<Rightarrow> handleStopSessionResume shown s
      | None \<Rightarrow> stopAfterGemini shown s)"

text \<open>
  \<^verbatim>\<open>handleManualSelect\<close> (lines 177-181). \<open>shown\<close> is the \<^verbatim>\<open>suggestionCtx\<close> of the
  render whose word button was tapped; the index is not used.
\<close>

definition handleManualSelect ::
  "SuggestionContext option \<Rightarrow> string \<Rightarrow> nat \<Rightarrow> AppState \<Rightarrow> AppState" where
  "handleManualSelect shown w index s =
     (case shown of
        None \<Rightarrow> s
      | Some ctx \<Rightarrow> (addLog w (ctxCategory ctx) 1.0 manual_click s)\<lparr>suggestionCtx := None\<rparr>)"

text \<open>
  \<^verbatim>\<open>handleSkip\<close> (lines 183-187). The Skip button is part of a render only when its
  \<^verbatim>\<open>suggestionCtx\<close> is a context, and the handler then sets the cell to null, whatever
  the cell holds: that is the result of this function on every state.
\<close>

definition handleSkip :: "AppState \<Rightarrow> AppState" where
  "handleSkip s = (case suggestionCtx s of Some ctx \<Rightarrow> s\<lparr>suggestionCtx := None\<rparr> | None \<Rightarrow> s)"

text \<open>
  The effect of lines 58-62 starts the read of the local store when the component
  mounts. \<open>loadSavedLogs\<close> is its \<^verbatim>\<open>then\<close> callback, which runs when the read has
  settled, at any later moment: \<^verbatim>\<open>setLogs(savedLogs)\<close> puts the list that was read in
  the place of \<open>logs\<close>.
\<close>

definition loadSavedLogs :: "WordLog list \<Rightarrow> AppState \<Rightarrow> AppState" where
  "loadSavedLogs savedLogs s = s\<lparr>logs := savedLogs\<rparr>"

text \<open>
  The state of a component that has just mounted for the user \<open>uid\<close>: the initial
  values given to \<^verbatim>\<open>useState\<close> and \<^verbatim>\<open>useRef\<close>.
\<close>

definition initialState :: "string \<Rightarrow> (nat \<Rightarrow> string) \<Rightarrow> (nat \<Rightarrow> int) \<Rightarrow> AppState" where
  "initialState uid uuids clock =
     \<lparr>user = Some uid, isRecording = False, suggestionCtx = None, logs = [],
      showReport = False, error = None, finalTranscript = [], interimTranscript = [],
      confirmationMessage = None, geminiRef = None, speechRef = None,
      suggestionCtxRef = None, cloudWrites = [], dbWrites = [],
      randomUUID = uuids, uuidCalls = 0, dateNow = clock, nowCalls = 0\<rparr>"

text \<open>The entry that the forEach of the implicit split logs for the word at index \<open>i\<close>.\<close>

definition splitEntry :: "SuggestionContext \<Rightarrow> AppState \<Rightarrow> nat \<Rightarrow> nat \<Rightarrow> WordLog" where
  "splitEntry ctx s base i =
     \<lparr>id_field = randomUUID s (uuidCalls s + i), word = words ctx ! (base + i),
      category = ctxCategory ctx, weight = orNumber (arrayGet weights (base + i)) 0.1,
      timestamp = dateNow s (nowCalls s + i), selectionMethod = implicit_split\<rparr>"

section \<open>Events of the application\<close>

text \<open>
  Everything that can happen to a mounted component: the five callbacks of the Gemini
  service, the two of the speech service, the four handlers of the user interface
  (\<open>StopSession\<close> is a stop that nothing interrupts, \<open>StopResume\<close> the continuation of
  a stop that was suspended at its \<^verbatim>\<open>await\<close> while the events before it happened),
  the two buttons of the report, the effect that copies the context to the ref, and
  the arrival of the saved entries read from the local store.
\<close>

datatype AppEvent =
    Suggestions "string list" string
  | ConfirmedWord string
  | RejectWord
  | TranscriptUpdate string
  | GeminiError string
  | SpeechResult string bool
  | SpeechError string
  | StartSession StartEnv
  | StopSession "SuggestionContext option"
  | StopResume "SuggestionContext option"
  | ManualSelect "SuggestionContext option" string nat
  | Skip
  | SetShowReport bool
  | RefEffect
  | SavedLogsLoaded "WordLog list"

fun appStep :: "AppEvent \<Rightarrow> AppState \<Rightarrow> AppState" where
  "appStep (Suggestions ws c) s = onSuggestions ws c s"
| "appStep (ConfirmedWord w) s = fst (onConfirmedWord w s)"
| "appStep RejectWord s = onRejectWord s"
| "appStep (TranscriptUpdate text) s = onTranscriptUpdate text s"
| "appStep (GeminiError err) s = onError err s"
| "appStep (SpeechResult text isFinal) s = onSpeechResult text isFinal s"
| "appStep (SpeechError err) s = onSpeechError err s"
| "appStep (StartSession env) s = handleStartSession env s"
| "appStep (StopSession shown) s = handleStopSession shown s"
| "appStep (StopResume shown) s = handleStopSessionResume shown s"
| "appStep (ManualSelect shown w index) s = handleManualSelect shown w index s"
| "appStep Skip s = handleSkip s"
| "appStep (SetShowReport b) s = s\<lparr>showReport := b\<rparr>"
| "appStep RefEffect s = syncSuggestionCtxRef s"
| "appStep (SavedLogsLoaded savedLogs) s = loadSavedLogs savedLogs s"

text \<open>The events of a list, one after the other.\<close>

definition appRun :: "AppEvent list \<Rightarrow> AppState \<Rightarrow> AppState" where
  "appRun evs s = fold appStep evs s"

text \<open>
  In a sequence of events, every arrival of the saved entries finds the list of logs
  empty, as it is when the component has just mounted.
\<close>

fun loadsOnEmpty :: "AppEvent list \<Rightarrow> AppState \<Rightarrow> bool" where
  "loadsOnEmpty [] s = True"
| "loadsOnEmpty (SavedLogsLoaded savedLogs # evs) s =
     (logs s = [] \<and> loadsOnEmpty evs (appStep (SavedLogsLoaded savedLogs) s))"
| "loadsOnEmpty (ev # evs) s = loadsOnEmpty evs (appStep ev s)"

text \<open>
  How the callbacks are called (GeminiService.handleMessage, src/unnamed/part_000,
  lines 150-172): a tool-call message carries a list of function calls, and one
  synchronous loop gives each \<^verbatim>\<open>provideSuggestions\<close> to \<^verbatim>\<open>onSuggestions\<close> and each
  \<^verbatim>\<open>confirmSelection\<close> to \<^verbatim>\<open>onConfirmedWord\<close>; a call of another name is passed over.
  Nothing else runs between two iterations, so the effect that copies the context to
  the ref does not: it runs after React has rendered. An exception of a callback ends
  the loop.
\<close>

datatype FunctionCall =
    ProvideSuggestions "string list" string
  | ConfirmSelection string
  | OtherFunction string

fun toolCallLoop :: "FunctionCall list \<Rightarrow> AppState \<Rightarrow> AppState \<times> js_error option" where
  "toolCallLoop [] s = (s, None)"
| "toolCallLoop (ProvideSuggestions ws c # fcs) s = toolCallLoop fcs (onSuggestions ws c s)"
| "toolCallLoop (ConfirmSelection w # fcs) s =
     (case onConfirmedWord w s of
        (s1, Some e) \<Rightarrow> (s1, Some e)
      | (s1, None) \<Rightarrow> toolCallLoop fcs s1)"
| "toolCallLoop (OtherFunction name # fcs) s = toolCallLoop fcs s"

section \<open>Audio playback (GeminiService.playAudio, src/unnamed/part_000)\<close>











section \<open>Example runs\<close>

text \<open>
  A component mounted for the user \<open>u1\<close>, where the k-th id is \<open>log-\<close> followed by k
  letters and the clock reads 1000 + k at its k-th reading.
\<close>

definition mounted :: AppState where
  "mounted = initialState ''u1'' (\<lambda>k. ''log-'' @ replicate k CHR ''i'') (\<lambda>k. 1000 + int k)"

text \<open>
  The example of the specification: the suggestions dog, cat, fox of category Animals
  have arrived, and the effect has copied the context to the ref.
\<close>

definition animals :: SuggestionContext where
  "animals = \<lparr>words = [''dog'', ''cat'', ''fox''], ctxCategory = ''Animals'', ctxTimestamp = 1000\<rparr>"

definition pendingAnimals :: AppState where
  "pendingAnimals = appRun [Suggestions [''dog'', ''cat'', ''fox''] ''Animals'', RefEffect] mounted"

text \<open>An entry that the local store holds from an earlier visit.\<close>

definition savedEntry :: WordLog where
  "savedEntry = \<lparr>id_field = ''log-old'', word = ''sun'', category = ''Sky'', weight = 1.0,
                  timestamp = 900, selectionMethod = manual_click\<rparr>"

text \<open>A context of four words.\<close>

definition fourBirds :: SuggestionContext where
  "fourBirds = \<lparr>words = [''owl'', ''jay'', ''emu'', ''tit''], ctxCategory = ''Birds'', ctxTimestamp = 1000\<rparr>"

text \<open>The same three words, suggested with an empty category.\<close>

definition unnamed :: SuggestionContext where
  "unnamed = \<lparr>words = [''dog'', ''cat'', ''fox''], ctxCategory = [], ctxTimestamp = 1000\<rparr>"

definition pendingUnnamed :: AppState where
  "pendingUnnamed = appRun [Suggestions [''dog'', ''cat'', ''fox''] [], RefEffect] mounted"

text \<open>
  A service whose output context and output node exist, with the clock at 0 and
  nothing started; a decoder that knows one chunk, of half a second.
\<close>

definition outputReady :: GeminiService where
  "outputReady = newGeminiService\<lparr>outputAudioContext := Some \<lparr>currentTime = 0\<rparr>, outputNode := True\<rparr>"


text \<open>
  Browsers for the start of a session, all with a Gemini service that connects without
  error: one with no recognizer at all, one that has only the unprefixed name, one whose
  recognizer cannot be constructed, one whose recognizer cannot be started.
\<close>

definition browserEnv :: "bool \<Rightarrow> bool \<Rightarrow> bool \<Rightarrow> bool \<Rightarrow> StartEnv" where
  "browserEnv plain webkit ctorFails startFails =
     \<lparr>hasSpeechRecognition = plain, hasWebkitSpeechRecognition = webkit,
      geminiCtorThrows = False, recognitionCtorThrows = ctorFails, connectErrors = [],
      connectThrows = False, connected = outputReady, recognitionStartThrows = startFails\<rparr>"

text \<open>
  A session started in a browser with no recognizer, in which the suggestions dog, cat,
  fox of category Animals have arrived and the effect has copied the context to the ref.
\<close>

definition sessionAnimals :: AppState where
  "sessionAnimals =
     appRun [StartSession (browserEnv False False False False),
             Suggestions [''dog'', ''cat'', ''fox''] ''Animals'', RefEffect] mounted"

section \<open>Facts about logging\<close>

lemma addLog_logs:
  "logs (addLog w c wt m s) =
     logs s @ [\<lparr>id_field = randomUUID s (uuidCalls s), word = w, category = c, weight = wt,
                timestamp = dateNow s (nowCalls s), selectionMethod = m\<rparr>]"
  by (simp add: addLog_def Let_def split: option.split)

lemma addLog_frame:
  "user (addLog w c wt m s) = user s"
  "randomUUID (addLog w c wt m s) = randomUUID s"
  "dateNow (addLog w c wt m s) = dateNow s"
  "uuidCalls (addLog w c wt m s) = Suc (uuidCalls s)"
  "nowCalls (addLog w c wt m s) = Suc (nowCalls s)"
  "suggestionCtx (addLog w c wt m s) = suggestionCtx s"
  "suggestionCtxRef (addLog w c wt m s) = suggestionCtxRef s"
  by (simp_all add: addLog_def Let_def split: option.split)

lemma forEachWord_logs:
  "ws = drop base (words ctx) \<Longrightarrow> base \<le> length (words ctx) \<Longrightarrow>
   logs (forEachWord ctx ws base s) = logs s @ map (splitEntry ctx s base) [0..<length ws]"
proof (induction ws arbitrary: base s)
  case Nil
  then show ?case by simp
next
  case (Cons w ws)
  let ?s1 = "addLog w (ctxCategory ctx) (orNumber (arrayGet weights base) 0.1) implicit_split s"
  from Cons.prems have lt: "base < length (words ctx)"
    by (metis drop_all list.distinct(1) not_le_imp_less)
  from Cons.prems have w: "w = words ctx ! base"
    by (metis lt hd_drop_conv_nth list.sel(1))
  from Cons.prems have ws: "ws = drop (Suc base) (words ctx)"
    by (metis drop_Suc list.sel(3) tl_drop)
  have step: "logs (forEachWord ctx ws (Suc base) ?s1) =
      logs ?s1 @ map (splitEntry ctx ?s1 (Suc base)) [0..<length ws]"
    using Cons.IH [OF ws] lt by simp
  have shift: "map (splitEntry ctx ?s1 (Suc base)) [0..<length ws] =
      map (splitEntry ctx s base) (map Suc [0..<length ws])"
    by (simp add: splitEntry_def addLog_frame)
  have first: "logs ?s1 = logs s @ [splitEntry ctx s base 0]"
    by (simp add: addLog_logs splitEntry_def w)
  have "[0..<length (w # ws)] = 0 # map Suc [0..<length ws]"
    by (simp add: upt_conv_Cons map_Suc_upt del: upt_Suc)
  then show ?case
    using step shift first by simp
qed

lemma processImplicitSplit_logs:
  "logs (processImplicitSplit ctx s) =
     logs s @ map (splitEntry ctx s 0) [0..<length (words ctx)]"
  by (simp add: processImplicitSplit_def forEachWord_logs)

lemma weight_at_index:
  "orNumber (arrayGet weights i) 0.1 = (if i = 0 then 0.5 else if i = 1 then 0.4 else 0.1)"
proof -
  consider "i = 0" | "i = 1" | "i = 2" | "3 \<le> i" by arith
  then show ?thesis
    by cases (simp_all add: orNumber_def arrayGet_def weights_def)
qed

lemma forEachWord_frame:
  "nowCalls (forEachWord ctx ws idx s) = nowCalls s + length ws"
  "uuidCalls (forEachWord ctx ws idx s) = uuidCalls s + length ws"
  "dateNow (forEachWord ctx ws idx s) = dateNow s"
  "randomUUID (forEachWord ctx ws idx s) = randomUUID s"
  "suggestionCtx (forEachWord ctx ws idx s) = suggestionCtx s"
  "suggestionCtxRef (forEachWord ctx ws idx s) = suggestionCtxRef s"
  by (induction ws arbitrary: idx s) (simp_all add: addLog_frame)

lemma processImplicitSplit_frame:
  "nowCalls (processImplicitSplit ctx s) = nowCalls s + length (words ctx)"
  "dateNow (processImplicitSplit ctx s) = dateNow s"
  "suggestionCtx (processImplicitSplit ctx s) = suggestionCtx s"
  "suggestionCtxRef (processImplicitSplit ctx s) = suggestionCtxRef s"
  by (simp_all add: processImplicitSplit_def forEachWord_frame)

lemma upt_3: "[0..<3] = [0, 1, 2]"
  by (simp add: upt_rec)

lemma upt_4: "[0..<4] = [0, 1, 2, 3]"
  by (simp add: upt_rec)

lemma split_three:
  assumes "words prev = [w0, w1, w2]"
  shows "logs (processImplicitSplit prev s) = logs s @
      [\<lparr>id_field = randomUUID s (uuidCalls s), word = w0, category = ctxCategory prev,
        weight = 0.5, timestamp = dateNow s (nowCalls s), selectionMethod = implicit_split\<rparr>,
       \<lparr>id_field = randomUUID s (uuidCalls s + 1), word = w1, category = ctxCategory prev,
        weight = 0.4, timestamp = dateNow s (nowCalls s + 1), selectionMethod = implicit_split\<rparr>,
       \<lparr>id_field = randomUUID s (uuidCalls s + 2), word = w2, category = ctxCategory prev,
        weight = 0.1, timestamp = dateNow s (nowCalls s + 2), selectionMethod = implicit_split\<rparr>]"
  using assms
  by (simp add: processImplicitSplit_logs upt_3 splitEntry_def weight_at_index)

lemma split_entries:
  "map word (map (splitEntry ctx s 0) [0..<length (words ctx)]) = words ctx"
  "map weight (map (splitEntry ctx s 0) [0..<length (words ctx)]) =
     map (\<lambda>i. if i = 0 then 0.5 else if i = 1 then 0.4 else 0.1) [0..<length (words ctx)]"
  "map category (map (splitEntry ctx s 0) [0..<length (words ctx)]) =
     replicate (length (words ctx)) (ctxCategory ctx)"
  "map selectionMethod (map (splitEntry ctx s 0) [0..<length (words ctx)]) =
     replicate (length (words ctx)) implicit_split"
  by (simp_all add: splitEntry_def o_def map_nth weight_at_index map_replicate_const)

lemma stopAfterGemini_logs:
  "logs (stopAfterGemini shown s) =
     (case shown of Some ctx \<Rightarrow> logs (processImplicitSplit ctx s) | None \<Rightarrow> logs s)"
  by (simp add: stopAfterGemini_def Let_def processImplicitSplit_logs splitEntry_def
      split: option.split)

lemma handleStopSessionResume_logs:
  "logs (handleStopSessionResume shown s) =
     (case shown of Some ctx \<Rightarrow> logs (processImplicitSplit ctx s) | None \<Rightarrow> logs s)"
  by (simp add: handleStopSessionResume_def stopAfterGemini_logs processImplicitSplit_logs
      splitEntry_def split: option.split)

lemma handleStopSession_logs:
  "logs (handleStopSession shown s) =
     (case shown of Some ctx \<Rightarrow> logs (processImplicitSplit ctx s) | None \<Rightarrow> logs s)"
  by (simp add: handleStopSession_def handleStopSessionResume_logs stopAfterGemini_logs
      split: option.split)

lemma onSuggestions_logs:
  "logs (onSuggestions ws c s) =
     (case suggestionCtxRef s of Some prev \<Rightarrow> logs (processImplicitSplit prev s) | None \<Rightarrow> logs s)"
  by (simp add: onSuggestions_def Let_def split: option.split)

lemma handleStopSession_clears: "suggestionCtx (handleStopSession (Some ctx) s) = None"
  by (simp add: handleStopSession_def handleStopSessionResume_def stopAfterGemini_def Let_def
      split: option.split)

section \<open>Facts about the start of a session\<close>

lemma fold_onError:
  "fold onError errs s = (if errs = [] then s else s\<lparr>error := Some (last errs)\<rparr>)"
  by (induction errs arbitrary: s) (simp_all add: onError_def)

lemma fold_onSpeechError: "fold onSpeechError errs s = s"
  by (induction errs) (simp_all add: onSpeechError_def)

lemma handleStartSession_logs: "logs (handleStartSession env s) = logs s"
  by (simp add: handleStartSession_def Let_def fold_onError fold_onSpeechError
      newSpeechService_def split: option.split)





section \<open>Facts about the events\<close>

lemma appStep_extends:
  "loadsOnEmpty [ev] s \<Longrightarrow> \<exists>ext. logs (appStep ev s) = logs s @ ext"
proof (cases ev)
  case (Suggestions ws c)
  then show ?thesis
    by (simp add: onSuggestions_logs processImplicitSplit_logs split: option.split)
next
  case (ConfirmedWord w)
  then show ?thesis by (simp add: onConfirmedWord_def Let_def addLog_logs)
next
  case (StartSession env)
  then show ?thesis by (simp add: handleStartSession_logs)
next
  case (StopSession shown)
  then show ?thesis
    by (simp add: handleStopSession_logs processImplicitSplit_logs split: option.split)
next
  case (StopResume shown)
  then show ?thesis
    by (simp add: handleStopSessionResume_logs processImplicitSplit_logs split: option.split)
next
  case (ManualSelect shown w i)
  then show ?thesis by (simp add: handleManualSelect_def addLog_logs split: option.split)
next
  case (SavedLogsLoaded savedLogs)
  assume "loadsOnEmpty [ev] s"
  with SavedLogsLoaded show ?thesis by (simp add: loadSavedLogs_def)
qed (simp_all add: onRejectWord_def onTranscriptUpdate_def onError_def onSpeechResult_def
      onSpeechError_def handleSkip_def syncSuggestionCtxRef_def split: option.split)

lemma loadsOnEmpty_Cons:
  "loadsOnEmpty (ev # evs) s = (loadsOnEmpty [ev] s \<and> loadsOnEmpty evs (appStep ev s))"
  by (cases ev) simp_all

text \<open>An arrival that finds no context in the ref logs nothing.\<close>

lemma arrival_without_ref:
  "suggestionCtxRef s = None \<Longrightarrow> logs (onSuggestions ws c s) = logs s"
  by (simp add: onSuggestions_logs)

lemma pendingAnimals_state:
  "suggestionCtx pendingAnimals = Some animals"
  "suggestionCtxRef pendingAnimals = Some animals"
  "logs pendingAnimals = []"
  by (simp_all add: pendingAnimals_def appRun_def onSuggestions_def Let_def
      syncSuggestionCtxRef_def mounted_def initialState_def animals_def)

lemma pendingUnnamed_state:
  "suggestionCtx pendingUnnamed = Some unnamed"
  "suggestionCtxRef pendingUnnamed = Some unnamed"
  "logs pendingUnnamed = []"
  by (simp_all add: pendingUnnamed_def appRun_def onSuggestions_def Let_def
      syncSuggestionCtxRef_def mounted_def initialState_def unnamed_def)

lemma sessionAnimals_state:
  "suggestionCtx sessionAnimals = Some animals"
  "suggestionCtxRef sessionAnimals = Some animals"
  "logs sessionAnimals = []"
  "geminiRef sessionAnimals = Some outputReady"
  "isRecording sessionAnimals"
  by (simp_all add: sessionAnimals_def appRun_def onSuggestions_def Let_def
      syncSuggestionCtxRef_def mounted_def initialState_def animals_def
      handleStartSession_def browserEnv_def)

lemma mounted_state:
  "suggestionCtx mounted = None"
  "suggestionCtxRef mounted = None"
  "logs mounted = []"
  "speechRef mounted = None"
  by (simp_all add: mounted_def initialState_def)

section \<open>Facts about playback\<close>









section \<open>Supersession by a new suggestion set\<close>

text \<open>
  An arrival that finds a context of three words in the ref appends exactly three
  entries to the log, for the three words in their order, with weights 0.5, 0.4 and
  0.1, the category of that context and the method \<open>implicit_split\<close>, and then
  makes the new set the active context: the time stamp of the new context is read
  after the three entries were stamped.
\<close>

lemma supersession_when_ref_holds:
  assumes "suggestionCtxRef s = Some prev" and "words prev = [w0, w1, w2]"
  shows "logs (onSuggestions ws c s) = logs s @
      [\<lparr>id_field = randomUUID s (uuidCalls s), word = w0, category = ctxCategory prev,
        weight = 0.5, timestamp = dateNow s (nowCalls s), selectionMethod = implicit_split\<rparr>,
       \<lparr>id_field = randomUUID s (uuidCalls s + 1), word = w1, category = ctxCategory prev,
        weight = 0.4, timestamp = dateNow s (nowCalls s + 1), selectionMethod = implicit_split\<rparr>,
       \<lparr>id_field = randomUUID s (uuidCalls s + 2), word = w2, category = ctxCategory prev,
        weight = 0.1, timestamp = dateNow s (nowCalls s + 2), selectionMethod = implicit_split\<rparr>]
     \<and> suggestionCtx (onSuggestions ws c s) =
         Some \<lparr>words = ws, ctxCategory = c, ctxTimestamp = dateNow s (nowCalls s + 3)\<rparr>"
  using assms
  by (simp add: onSuggestions_def Let_def split_three processImplicitSplit_frame
      eval_nat_numeral)

text \<open>
  The example of the specification: dog, cat, fox of category Animals, followed by a
  new set once the effect has run.
\<close>

lemma supersession_example:
  "map (\<lambda>l. (word l, category l, weight l, selectionMethod l))
       (logs (onSuggestions [''cow'', ''pig'', ''hen''] ''Farm'' pendingAnimals)) =
     [(''dog'', ''Animals'', 0.5, implicit_split), (''cat'', ''Animals'', 0.4, implicit_split),
      (''fox'', ''Animals'', 0.1, implicit_split)] \<and>
   map_option words (suggestionCtx (onSuggestions [''cow'', ''pig'', ''hen''] ''Farm'' pendingAnimals)) =
     Some [''cow'', ''pig'', ''hen'']"
proof -
  have ref: "suggestionCtxRef pendingAnimals = Some animals"
    by (rule pendingAnimals_state)
  have three: "words animals = [''dog'', ''cat'', ''fox'']"
    by (simp add: animals_def)
  show ?thesis
    using supersession_when_ref_holds [OF ref three, of "[''cow'', ''pig'', ''hen'']" "''Farm''"]
    by (simp add: pendingAnimals_state animals_def)
qed

text \<open>Two sets that arrive in one message at a component with no context: nothing is logged.\<close>

lemma first_arrivals_in_one_message:
  "suggestionCtx mounted = None \<and>
   logs (fst (toolCallLoop
       [ProvideSuggestions [''dog'', ''cat'', ''fox''] ''Animals'',
        ProvideSuggestions [''cow'', ''pig'', ''hen''] ''Farm''] mounted)) = [] \<and>
   map_option words (suggestionCtx (fst (toolCallLoop
       [ProvideSuggestions [''dog'', ''cat'', ''fox''] ''Animals'',
        ProvideSuggestions [''cow'', ''pig'', ''hen''] ''Farm''] mounted))) =
     Some [''cow'', ''pig'', ''hen'']"
  by (simp add: mounted_state onSuggestions_logs onSuggestions_def Let_def)

text \<open>
  Claim C1 asks that every arrival of a new suggestion set, while a previous context is
  unresolved, first logs the three words of the previous set (weights 0.5, 0.4, 0.1, its
  category, method \<open>implicit_split\<close>, exactly three entries for each superseded set)
  and then replaces the active context. The callback finds the previous set in the
  ref, which only the effect brings up to date. With dog, cat, fox pending, a tool-call
  message that carries the set cow, pig, hen and then the set bus, car, van is handled
  by one loop: both arrivals find dog, cat, fox in the ref. The log receives dog, cat,
  fox twice, six entries for that one superseded set, and nothing for cow, pig, hen,
  which the second arrival supersedes; the log the claim describes holds dog, cat,
  fox, cow, pig, hen.
\<close>

theorem second_arrival_in_one_message:
  "suggestionCtx pendingAnimals = Some animals \<and>
   map word (logs (fst (toolCallLoop
       [ProvideSuggestions [''cow'', ''pig'', ''hen''] ''Farm'',
        ProvideSuggestions [''bus'', ''car'', ''van''] ''Roads''] pendingAnimals))) =
     [''dog'', ''cat'', ''fox'', ''dog'', ''cat'', ''fox''] \<and>
   map category (logs (fst (toolCallLoop
       [ProvideSuggestions [''cow'', ''pig'', ''hen''] ''Farm'',
        ProvideSuggestions [''bus'', ''car'', ''van''] ''Roads''] pendingAnimals))) =
     [''Animals'', ''Animals'', ''Animals'', ''Animals'', ''Animals'', ''Animals''] \<and>
   map word (logs (fst (toolCallLoop
       [ProvideSuggestions [''cow'', ''pig'', ''hen''] ''Farm'',
        ProvideSuggestions [''bus'', ''car'', ''van''] ''Roads''] pendingAnimals))) \<noteq>
     [''dog'', ''cat'', ''fox'', ''cow'', ''pig'', ''hen''] \<and>
   map_option words (suggestionCtx (fst (toolCallLoop
       [ProvideSuggestions [''cow'', ''pig'', ''hen''] ''Farm'',
        ProvideSuggestions [''bus'', ''car'', ''van''] ''Roads''] pendingAnimals))) =
     Some [''bus'', ''car'', ''van'']"
  by (simp add: pendingAnimals_state onSuggestions_logs onSuggestions_def Let_def
      processImplicitSplit_frame processImplicitSplit_logs splitEntry_def animals_def upt_3)

section \<open>Explicit confirmation\<close>

text \<open>
  Claim C2, as amended. Take a state in which a suggestion context is active (the state
  cell holds it). A voice confirmation that the callback handles when the ref holds
  that same context, and a tap on a word button of the render that shows that context,
  each append exactly one entry to the log, with the confirmed word and weight 1.0,
  and then clear the active context: the state cell holds none. The tap logs the
  category of the context with the method \<open>manual_click\<close>. The voice confirmation
  logs the method \<open>voice_confirmed\<close> and the category of the context, unless that
  category is the empty string, in which case it logs the category General. Nothing is
  said of a confirmation handled while the ref or the render is behind the state cell.
\<close>

theorem explicit_confirmation_logs_once:
  "(suggestionCtx s = Some ctx \<and> suggestionCtxRef s = Some ctx \<longrightarrow>
      logs (fst (onConfirmedWord w s)) = logs s @
        [\<lparr>id_field = randomUUID s (uuidCalls s), word = w,
          category = (if ctxCategory ctx = [] then ''General'' else ctxCategory ctx),
          weight = 1.0, timestamp = dateNow s (nowCalls s), selectionMethod = voice_confirmed\<rparr>] \<and>
      suggestionCtx (fst (onConfirmedWord w s)) = None) \<and>
   (suggestionCtx s = Some ctx \<longrightarrow>
      logs (handleManualSelect (Some ctx) w i s) = logs s @
        [\<lparr>id_field = randomUUID s (uuidCalls s), word = w, category = ctxCategory ctx,
          weight = 1.0, timestamp = dateNow s (nowCalls s), selectionMethod = manual_click\<rparr>] \<and>
      suggestionCtx (handleManualSelect (Some ctx) w i s) = None)"
  by (simp add: onConfirmedWord_def Let_def categoryOrGeneral_def addLog_logs
      handleManualSelect_def)

theorem explicit_confirmation_logs_once_witness:
  "suggestionCtx pendingAnimals = Some animals \<and> suggestionCtxRef pendingAnimals = Some animals \<and>
   ''cat'' \<in> set (words animals) \<and>
   map (\<lambda>l. (word l, category l, weight l, selectionMethod l))
       (logs (fst (onConfirmedWord ''cat'' pendingAnimals))) =
     [(''cat'', ''Animals'', 1, voice_confirmed)] \<and>
   suggestionCtx (fst (onConfirmedWord ''cat'' pendingAnimals)) = None \<and>
   map (\<lambda>l. (word l, category l, weight l, selectionMethod l))
       (logs (handleManualSelect (Some animals) ''cat'' 1 pendingAnimals)) =
     [(''cat'', ''Animals'', 1, manual_click)] \<and>
   suggestionCtx (handleManualSelect (Some animals) ''cat'' 1 pendingAnimals) = None"
  using explicit_confirmation_logs_once [of pendingAnimals animals "''cat''" 1]
  by (simp add: pendingAnimals_state animals_def)

text \<open>
  With the three words suggested under an empty category, the voice confirmation of
  dog is logged with the category General, which is not the category of the context.
\<close>

theorem voice_confirmation_category_counterexample:
  "suggestionCtx pendingUnnamed = Some unnamed \<and>
   suggestionCtxRef pendingUnnamed = Some unnamed \<and>
   ''dog'' \<in> set (words unnamed) \<and>
   map category (produced pendingUnnamed (fst (onConfirmedWord ''dog'' pendingUnnamed))) =
     [''General''] \<and>
   ctxCategory unnamed = [] \<and>
   map category (produced pendingUnnamed (fst (onConfirmedWord ''dog'' pendingUnnamed))) \<noteq>
     [ctxCategory unnamed]"
  by (simp add: pendingUnnamed_state unnamed_def produced_def onConfirmedWord_def Let_def
      categoryOrGeneral_def addLog_logs)

section \<open>Stopping a session\<close>

text \<open>
  A stop whose handler holds the context that is pending, run with nothing in between:
  the entries logged before are kept, the words of the context are appended by the
  implicit split, one entry per word in order, with weights 0.5, 0.4, 0.1, the category
  of the context and the method \<open>implicit_split\<close>, and the state cell is cleared.
  Where the arrival callback sees the same context in the ref, the log is the one the
  arrival of a new set would leave. A stop whose handler holds no context logs nothing.
\<close>

lemma stop_when_shown_is_pending:
  "(suggestionCtx s = Some ctx \<longrightarrow>
      take (length (logs s)) (logs (handleStopSession (Some ctx) s)) = logs s \<and>
      map word (produced s (handleStopSession (Some ctx) s)) = words ctx \<and>
      map weight (produced s (handleStopSession (Some ctx) s)) =
        map (\<lambda>i. if i = 0 then 0.5 else if i = 1 then 0.4 else 0.1) [0..<length (words ctx)] \<and>
      map category (produced s (handleStopSession (Some ctx) s)) =
        replicate (length (words ctx)) (ctxCategory ctx) \<and>
      map selectionMethod (produced s (handleStopSession (Some ctx) s)) =
        replicate (length (words ctx)) implicit_split \<and>
      suggestionCtx (handleStopSession (Some ctx) s) = None) \<and>
   (suggestionCtx s = Some ctx \<and> suggestionCtxRef s = Some ctx \<longrightarrow>
      logs (handleStopSession (Some ctx) s) = logs (onSuggestions ws c s)) \<and>
   logs (handleStopSession None s) = logs s"
  using split_entries [of ctx s]
  by (simp add: handleStopSession_logs onSuggestions_logs handleStopSession_clears
      produced_def processImplicitSplit_logs)

text \<open>
  A set arrives in a running session and Stop is pressed before React has rendered it:
  the handler is the one of the render that shows no context. Nothing is logged, the
  session is stopped, and the set stays in the state cell.
\<close>

lemma stop_before_render:
  "logs (appRun [StartSession (browserEnv False False False False),
                 Suggestions [''dog'', ''cat'', ''fox''] ''Animals'',
                 StopSession None] mounted) = [] \<and>
   suggestionCtx (appRun [StartSession (browserEnv False False False False),
                 Suggestions [''dog'', ''cat'', ''fox''] ''Animals'',
                 StopSession None] mounted) = Some animals \<and>
   \<not> isRecording (appRun [StartSession (browserEnv False False False False),
                 Suggestions [''dog'', ''cat'', ''fox''] ''Animals'',
                 StopSession None] mounted)"
  by (simp add: appRun_def handleStartSession_def browserEnv_def mounted_def initialState_def
      onSuggestions_def Let_def handleStopSession_def handleStopSessionResume_def
      stopAfterGemini_def animals_def)

text \<open>
  Claim C3 asks that stopping a session while a suggestion context is pending logs the
  words of that context as the arrival of a new set would (weights 0.5, 0.4, 0.1, method
  \<open>implicit_split\<close>) before the context is cleared. The handler takes the context from
  its render and uses it after the \<^verbatim>\<open>await\<close> of \<^verbatim>\<open>disconnect()\<close>. In a running session
  with dog, cat, fox displayed, Stop is pressed; while the handler is suspended the set
  cow, pig, hen arrives, which logs dog, cat, fox and becomes the pending context; the
  handler then resumes with dog, cat, fox. The log receives dog, cat, fox a second time
  and the pending set cow, pig, hen is cleared without an entry; the log the claim
  describes holds dog, cat, fox, cow, pig, hen.
\<close>

theorem stop_resumes_with_superseded_context:
  "geminiRef sessionAnimals = Some outputReady \<and>
   suggestionCtx sessionAnimals = Some animals \<and>
   map_option words (suggestionCtx (appRun [Suggestions [''cow'', ''pig'', ''hen''] ''Farm'']
       sessionAnimals)) = Some [''cow'', ''pig'', ''hen''] \<and>
   map word (logs (appRun [Suggestions [''cow'', ''pig'', ''hen''] ''Farm'',
                           StopResume (Some animals)] sessionAnimals)) =
     [''dog'', ''cat'', ''fox'', ''dog'', ''cat'', ''fox''] \<and>
   map category (logs (appRun [Suggestions [''cow'', ''pig'', ''hen''] ''Farm'',
                           StopResume (Some animals)] sessionAnimals)) =
     [''Animals'', ''Animals'', ''Animals'', ''Animals'', ''Animals'', ''Animals''] \<and>
   map word (logs (appRun [Suggestions [''cow'', ''pig'', ''hen''] ''Farm'',
                           StopResume (Some animals)] sessionAnimals)) \<noteq>
     [''dog'', ''cat'', ''fox'', ''cow'', ''pig'', ''hen''] \<and>
   suggestionCtx (appRun [Suggestions [''cow'', ''pig'', ''hen''] ''Farm'',
                          StopResume (Some animals)] sessionAnimals) = None"
  by (simp add: appRun_def sessionAnimals_state onSuggestions_logs onSuggestions_def Let_def
      handleStopSessionResume_logs handleStopSessionResume_def stopAfterGemini_def
      processImplicitSplit_frame processImplicitSplit_logs splitEntry_def animals_def upt_3
      split: option.split)

section \<open>Skip\<close>

text \<open>
  Claim C4. In every state, \<open>handleSkip\<close> appends nothing to the log, which stays as
  it was, and clears the active suggestion context; no other part of the state
  changes.
\<close>

theorem skip_clears_silently:
  "handleSkip s = s\<lparr>suggestionCtx := None\<rparr> \<and> logs (handleSkip s) = logs s \<and>
   produced s (handleSkip s) = [] \<and> suggestionCtx (handleSkip s) = None"
  by (simp add: handleSkip_def produced_def split: option.split)

theorem skip_clears_silently_witness:
  "logs (handleSkip pendingAnimals) = [] \<and> suggestionCtx (handleSkip pendingAnimals) = None \<and>
   suggestionCtxRef (handleSkip pendingAnimals) = Some animals"
  using skip_clears_silently [of pendingAnimals]
  by (simp add: pendingAnimals_state handleSkip_def)

section \<open>The playback cursor\<close>



section \<open>The log is append-only\<close>

text \<open>
  Claim C6, as amended. Over every sequence of events in which each arrival of the saved
  entries finds the list of logs empty (as when the component has just mounted), every
  event (the arrival of suggestions, a voice confirmation, a tap, a skip, the start and
  the stop of a session, every other callback, and that arrival of the saved entries)
  leaves the log unchanged or extends it at the end: the log of before is a prefix of
  the log of after, so that no entry, once in the list, is changed or removed. Nothing
  is said of saved entries that arrive after an entry was appended.
\<close>

theorem logs_append_only:
  "loadsOnEmpty evs s \<Longrightarrow> prefix (logs s) (logs (appRun evs s))"
  unfolding appRun_def
proof (induction evs arbitrary: s)
  case Nil
  then show ?case by simp
next
  case (Cons ev evs)
  from Cons.prems have one: "loadsOnEmpty [ev] s" and rest: "loadsOnEmpty evs (appStep ev s)"
    using loadsOnEmpty_Cons by blast+
  obtain ext where "logs (appStep ev s) = logs s @ ext"
    using appStep_extends [OF one] by blast
  then have "prefix (logs s) (logs (appStep ev s))" by simp
  also have "prefix (logs (appStep ev s)) (logs (fold appStep evs (appStep ev s)))"
    by (rule Cons.IH [OF rest])
  finally show ?case by simp
qed

theorem logs_append_only_witness:
  "loadsOnEmpty [SavedLogsLoaded [savedEntry], Suggestions [''dog'', ''cat'', ''fox''] ''Animals'',
                 RefEffect, Suggestions [''cow'', ''pig'', ''hen''] ''Farm'', RefEffect, Skip,
                 ConfirmedWord ''owl'', StopSession None] mounted \<and>
   prefix (logs mounted)
     (logs (appRun [SavedLogsLoaded [savedEntry], Suggestions [''dog'', ''cat'', ''fox''] ''Animals'',
                    RefEffect, Suggestions [''cow'', ''pig'', ''hen''] ''Farm'', RefEffect, Skip,
                    ConfirmedWord ''owl'', StopSession None] mounted)) \<and>
   map word
     (logs (appRun [SavedLogsLoaded [savedEntry], Suggestions [''dog'', ''cat'', ''fox''] ''Animals'',
                    RefEffect, Suggestions [''cow'', ''pig'', ''hen''] ''Farm'', RefEffect, Skip,
                    ConfirmedWord ''owl'', StopSession None] mounted)) =
     [''sun'', ''dog'', ''cat'', ''fox'', ''owl'']"
proof -
  have ok: "loadsOnEmpty [SavedLogsLoaded [savedEntry],
                 Suggestions [''dog'', ''cat'', ''fox''] ''Animals'',
                 RefEffect, Suggestions [''cow'', ''pig'', ''hen''] ''Farm'', RefEffect, Skip,
                 ConfirmedWord ''owl'', StopSession None] mounted"
    by (simp add: mounted_state)
  show ?thesis
    using ok logs_append_only [OF ok]
    by (simp add: appRun_def mounted_def initialState_def onSuggestions_def
        processImplicitSplit_def addLog_def Let_def syncSuggestionCtxRef_def handleSkip_def
        onConfirmedWord_def categoryOrGeneral_def handleStopSession_def stopAfterGemini_def
        loadSavedLogs_def savedEntry_def)
qed

text \<open>
  A voice confirmation is logged before the saved entries arrive, and the store held
  none when it was read: the entry is no longer in the list.
\<close>

theorem saved_logs_replace_counterexample:
  "map word (logs (appRun [ConfirmedWord ''owl''] mounted)) = [''owl''] \<and>
   logs (appRun [ConfirmedWord ''owl'', SavedLogsLoaded []] mounted) = [] \<and>
   \<not> prefix (logs (appRun [ConfirmedWord ''owl''] mounted))
       (logs (appRun [ConfirmedWord ''owl'', SavedLogsLoaded []] mounted))"
  by (simp add: appRun_def onConfirmedWord_def Let_def addLog_logs loadSavedLogs_def
      mounted_state)

section \<open>Falling back to the hosted transcription\<close>



section \<open>Voice confirmation with no active context\<close>



section \<open>The implicit split on a context of any length\<close>

text \<open>
  Claim C9. For a suggestion context whose word list has length n, whatever n is,
  \<open>processImplicitSplit\<close> keeps the entries already logged and appends exactly n
  entries, one per word in the order of the list, each with the category of the
  context and the method \<open>implicit_split\<close>; the entry at index 0 has weight 0.5, the
  one at index 1 has weight 0.4, and every entry at index 2 or more has weight 0.1.
\<close>

theorem implicit_split_any_length:
  "take (length (logs s)) (logs (processImplicitSplit ctx s)) = logs s \<and>
   length (produced s (processImplicitSplit ctx s)) = length (words ctx) \<and>
   map word (produced s (processImplicitSplit ctx s)) = words ctx \<and>
   map weight (produced s (processImplicitSplit ctx s)) =
     map (\<lambda>i. if i = 0 then 0.5 else if i = 1 then 0.4 else 0.1) [0..<length (words ctx)] \<and>
   map category (produced s (processImplicitSplit ctx s)) =
     replicate (length (words ctx)) (ctxCategory ctx) \<and>
   map selectionMethod (produced s (processImplicitSplit ctx s)) =
     replicate (length (words ctx)) implicit_split"
proof -
  let ?n = "length (words ctx)"
  have new: "produced s (processImplicitSplit ctx s) = map (splitEntry ctx s 0) [0..<?n]"
    by (simp add: produced_def processImplicitSplit_logs)
  have w: "map word (map (splitEntry ctx s 0) [0..<?n]) = words ctx"
    by (simp add: splitEntry_def o_def map_nth)
  have wt: "map weight (map (splitEntry ctx s 0) [0..<?n]) =
      map (\<lambda>i. if i = 0 then 0.5 else if i = 1 then 0.4 else 0.1) [0..<?n]"
    by (simp add: splitEntry_def o_def weight_at_index)
  have c: "map category (map (splitEntry ctx s 0) [0..<?n]) = replicate ?n (ctxCategory ctx)"
    by (simp add: splitEntry_def o_def map_replicate_const)
  have m: "map selectionMethod (map (splitEntry ctx s 0) [0..<?n]) = replicate ?n implicit_split"
    by (simp add: splitEntry_def o_def map_replicate_const)
  show ?thesis
    unfolding new using w wt c m by (simp add: processImplicitSplit_logs)
qed

theorem implicit_split_any_length_witness:
  "map word (produced mounted (processImplicitSplit fourBirds mounted)) =
     [''owl'', ''jay'', ''emu'', ''tit''] \<and>
   map weight (produced mounted (processImplicitSplit fourBirds mounted)) = [0.5, 0.4, 0.1, 0.1] \<and>
   map category (produced mounted (processImplicitSplit fourBirds mounted)) =
     [''Birds'', ''Birds'', ''Birds'', ''Birds''] \<and>
   map selectionMethod (produced mounted (processImplicitSplit fourBirds mounted)) =
     [implicit_split, implicit_split, implicit_split, implicit_split]"
  using implicit_split_any_length [of mounted fourBirds]
  by (simp add: fourBirds_def upt_4 eval_nat_numeral)

end
